theory Spec2Isabelle
  imports Main "HOL-Library.Sublist"
begin

section \<open>Chat with documents: the application shell and the configuration helper\<close>

text \<open>
  A shallow embedding of \<^verbatim>\<open>src/app.py\<close> and \<^verbatim>\<open>src/config.py\<close>.
  The script of \<^verbatim>\<open>app.py\<close> is re-executed from the top on every interaction;
  one execution is the function \<open>app\<close> below, from the widget values of that
  execution and the session state to the new session state, the elements
  written to the page, and the way the execution ended.
\<close>

subsection \<open>Python values used by the script\<close>

text \<open>
  The exceptions the script can meet. \<open>KeyError\<close> is the one exception the
  loader dispatch catches by name; the other constructors are further subclasses
  of \<^verbatim>\<open>Exception\<close>, all caught by \<^verbatim>\<open>except Exception\<close>.
\<close>

datatype py_exception =
    KeyError
  | NameError string
  | AttributeError string
  | OtherException string

text \<open>Python's \<^verbatim>\<open>sub in s\<close> on strings: \<open>sub\<close> occurs contiguously in \<open>s\<close>.\<close>

definition str_in :: "string \<Rightarrow> string \<Rightarrow> bool" where
  "str_in sub s = sublist sub s"

text \<open>\<^verbatim>\<open>os.environ\<close>: a dictionary from variable names to values.\<close>

type_synonym environ = "string \<rightharpoonup> string"

subsection \<open>Deployment-environment detection\<close>

text \<open>\<^verbatim>\<open>app.py\<close>, \<^verbatim>\<open>is_streamlit_cloud\<close> (Algorithm A).\<close>

definition is_streamlit_cloud :: "environ \<Rightarrow> bool" where
  "is_streamlit_cloud env =
     (''STREAMLIT_RUNTIME'' \<in> dom env \<or>
      ''STREAMLIT_SHARING_MODE'' \<in> dom env \<or>
      ''STREAMLIT_SERVER_HEADLESS'' \<in> dom env)"

text \<open>\<^verbatim>\<open>os.environ.get(key, default)\<close>.\<close>

definition environ_get :: "environ \<Rightarrow> string \<Rightarrow> string \<Rightarrow> string" where
  "environ_get env key dflt = (case env key of Some v \<Rightarrow> v | None \<Rightarrow> dflt)"

text \<open>
  \<^verbatim>\<open>config.py\<close>, \<^verbatim>\<open>is_streamlit_cloud\<close> (Algorithm B); the second argument is
  the result of \<^verbatim>\<open>socket.gethostname()\<close>.
\<close>

definition config_is_streamlit_cloud :: "environ \<Rightarrow> string \<Rightarrow> bool" where
  "config_is_streamlit_cloud env hostname =
     (if ''STREAMLIT_SERVER_HEADLESS'' \<in> dom env then True
      else if str_in ''streamlit'' hostname \<or> str_in ''cloud'' hostname then True
      else let streamlit_home = environ_get env ''STREAMLIT_HOME'' '''' in
        if str_in ''share'' streamlit_home \<or> str_in ''streamlit'' streamlit_home then True
        else False)"

subsection \<open>Session state, widgets and the page\<close>

text \<open>One chat turn, the dictionary \<^verbatim>\<open>{"role": ..., "content": ...}\<close>.\<close>

record message =
  role :: string
  content :: string

text \<open>Streamlit's \<^verbatim>\<open>UploadedFile\<close>: the original file name and the bytes.\<close>

record uploaded_file =
  name :: string
  data :: string

text \<open>
  \<^verbatim>\<open>st.session_state\<close>, with the keys the script uses. A key that is absent from
  the session state is \<open>None\<close>; \<^verbatim>\<open>"k" in st.session_state\<close> is \<open>k s \<noteq> None\<close> and
  \<^verbatim>\<open>del st.session_state.k\<close> sets the field to \<open>None\<close>. The collection handle
  \<open>'c\<close> and the LLM client \<open>'l\<close> are opaque.
\<close>

record ('c, 'l) session_state =
  folder_path :: "string option"
  uploaded_zip :: "uploaded_file option"
  files :: "string list option"
  temp_dir :: "string option"
  collection :: "'c option"
  llm :: "'l option"
  messages :: "message list option"
  show_popup :: "bool option"

definition empty_session :: "('c, 'l) session_state" where
  "empty_session =
     \<lparr>folder_path = None, uploaded_zip = None, files = None, temp_dir = None,
      collection = None, llm = None, messages = None, show_popup = None\<rparr>"

text \<open>
  What the widgets return in one execution of the script: the uploader, the text
  input, the three buttons (true in the execution that follows a click) and the
  chat input.
\<close>

record inputs =
  file_uploader :: "uploaded_file option"
  load_zip_button :: bool
  text_input :: string
  load_folder_button :: bool
  clear_chat_button :: bool
  chat_input :: "string option"

text \<open>
  The elements written to the page, in order. \<open>StProgress i n\<close> is the progress
  bar set to \<open>i / n\<close>; \<open>StChatMessage r c\<close> is \<^verbatim>\<open>st.markdown(c)\<close> inside
  \<^verbatim>\<open>st.chat_message(r)\<close>. The emoji of the labels are left out of the strings.
\<close>

datatype ui_event =
    StTitle string
  | StWrite string
  | StMarkdown string
  | StSuccess string
  | StCode string
  | StInfo string
  | StError string
  | StProgress nat nat
  | StChatMessage string string

text \<open>
  How a piece of the script ends: it falls through to the next statement
  (\<open>Next\<close>), or control leaves the script by \<^verbatim>\<open>st.stop()\<close>, by \<^verbatim>\<open>st.rerun()\<close> or by
  an exception that nothing catches.
\<close>

datatype outcome = Stop | Rerun | Uncaught py_exception

datatype 'a flow = Next 'a | Halt outcome 'a

fun flow_state :: "'a flow \<Rightarrow> 'a" where
  "flow_state (Next x) = x"
| "flow_state (Halt h x) = x"

definition seq :: "('a \<Rightarrow> 'a flow) \<Rightarrow> ('a \<Rightarrow> 'a flow) \<Rightarrow> 'a \<Rightarrow> 'a flow" where
  "seq f g x = (case f x of Next y \<Rightarrow> g y | Halt h y \<Rightarrow> Halt h y)"

type_synonym ('c, 'l) page = "('c, 'l) session_state \<times> ui_event list"

definition emit :: "ui_event list \<Rightarrow> ('c, 'l) page \<Rightarrow> ('c, 'l) page flow" where
  "emit es = (\<lambda>(s, out). Next (s, out @ es))"

subsection \<open>The modules the script imports\<close>

text \<open>
  The functions of the modules that \<^verbatim>\<open>app.py\<close> imports and of the Python
  library, as they answer during one execution of the script. The calls that the
  script makes inside \<^verbatim>\<open>try\<close> return an exception or a value; the others return
  a value. \<open>'k\<close> is the type of chunks, \<open>'h\<close> the history in the LLM library's
  format. \<open>scan_extracted z d\<close> is what \<^verbatim>\<open>scan_folders(d)\<close> returns once the
  archive \<open>z\<close> has been extracted into \<open>d\<close>.
\<close>

record ('c, 'k, 'l, 'h) world =
  environ :: environ
  secrets :: "string \<rightharpoonup> string"
  dotenv_file :: "string \<rightharpoonup> string"
  today :: string
  path_exists :: "string \<Rightarrow> bool"
  scan_folders :: "string \<Rightarrow> string list"
  mkdtemp :: string
  scan_extracted :: "uploaded_file \<Rightarrow> string \<Rightarrow> string list"
  load_txt :: "string \<Rightarrow> py_exception + string"
  load_pdf :: "string \<Rightarrow> py_exception + string"
  load_docx :: "string \<Rightarrow> py_exception + string"
  load_odt :: "string \<Rightarrow> py_exception + string"
  chunk_text :: "string \<Rightarrow> string \<Rightarrow> 'k list"
  create_collection :: "string \<Rightarrow> py_exception + 'c"
  add_chunks :: "'k list \<Rightarrow> 'c \<Rightarrow> py_exception + 'c"
  create_file_index_chunk :: "string list \<Rightarrow> 'k list"
  query_documents :: "'c \<Rightarrow> string \<Rightarrow> py_exception + 'k list"
  set_llm :: 'l
  set_langchain_history :: "message list \<Rightarrow> 'h"
  generate_answer :: "'l \<Rightarrow> string \<Rightarrow> 'k list \<Rightarrow> 'h \<Rightarrow> string"

text \<open>
  The extension part of \<^verbatim>\<open>os.path.splitext\<close> on a POSIX path: the text from the
  last dot of the last path component, when a character other than a dot comes
  before that dot in the component; the empty string otherwise.
\<close>

definition splitext_ext :: "string \<Rightarrow> string" where
  "splitext_ext p =
     (let base = rev (takeWhile (\<lambda>c. c \<noteq> CHR ''/'') (rev p));
          stem = dropWhile (\<lambda>c. c = CHR ''.'') base
      in if CHR ''.'' \<in> set stem
         then CHR ''.'' # rev (takeWhile (\<lambda>c. c \<noteq> CHR ''.'') (rev stem))
         else [])"

subsection \<open>Secret retrieval\<close>

text \<open>
  The names bound in the module namespace of \<^verbatim>\<open>app.py\<close>: the imports at the top
  of the file and the functions it defines. A call of a name that is not bound
  raises \<^verbatim>\<open>NameError\<close>.
\<close>

definition app_globals :: "string list" where
  "app_globals =
     [''os'', ''time'', ''st'',
      ''load_txt'', ''load_pdf'', ''load_docx'', ''load_odt'',
      ''scan_folders'',
      ''chunk_text'', ''create_collection'', ''add_chunks'', ''create_file_index_chunk'',
      ''set_llm'', ''generate_answer'', ''set_langchain_history'',
      ''query_documents'',
      ''HumanMessage'', ''AIMessage'',
      ''loaders'',
      ''is_streamlit_cloud'', ''get_secret'', ''extract_zip_and_scan'', ''render_sidebar'',
      ''initialize_vector_store'', ''handle_chat_input'']"

text \<open>
  \<^verbatim>\<open>load_dotenv()\<close> of the dotenv library: the variables of the file are added to
  the process environment, a variable that is already set keeps its value.
\<close>

definition load_dotenv :: "(string \<rightharpoonup> string) \<Rightarrow> environ \<Rightarrow> environ" where
  "load_dotenv file env = file ++ env"

text \<open>\<^verbatim>\<open>app.py\<close>, \<^verbatim>\<open>get_secret\<close>; the default is \<open>None\<close> when not given.\<close>

definition get_secret ::
  "('c, 'k, 'l, 'h) world \<Rightarrow> string \<Rightarrow> string option \<Rightarrow> py_exception + string option" where
  "get_secret w key dflt =
     (if is_streamlit_cloud (environ w) then
        Inr (case secrets w key of Some v \<Rightarrow> Some v | None \<Rightarrow> dflt)
      else if ''load_dotenv'' \<notin> set app_globals then
        Inl (NameError ''load_dotenv'')
      else
        Inr (case load_dotenv (dotenv_file w) (environ w) key of
               Some v \<Rightarrow> Some v | None \<Rightarrow> dflt))"

subsection \<open>The sidebar\<close>

definition del_collection :: "('c, 'l) session_state \<Rightarrow> ('c, 'l) session_state" where
  "del_collection s = (if collection s \<noteq> None then s\<lparr>collection := None\<rparr> else s)"

definition del_files :: "('c, 'l) session_state \<Rightarrow> ('c, 'l) session_state" where
  "del_files s = (if files s \<noteq> None then s\<lparr>files := None\<rparr> else s)"

definition del_folder_path :: "('c, 'l) session_state \<Rightarrow> ('c, 'l) session_state" where
  "del_folder_path s = (if folder_path s \<noteq> None then s\<lparr>folder_path := None\<rparr> else s)"

text \<open>\<^verbatim>\<open>st.info(f"Files Indexed: {len(st.session_state.files)}")\<close>, when the key is there.\<close>

fun str_nat :: "nat \<Rightarrow> string" where
  "str_nat n =
     (if n < 10 then [char_of (48 + n)]
      else str_nat (n div 10) @ [char_of (48 + n mod 10)])"

declare str_nat.simps [simp del]

definition files_indexed :: "('c, 'l) session_state \<Rightarrow> ui_event list" where
  "files_indexed s =
     (case files s of
        Some fs \<Rightarrow> [StInfo (''**Files Indexed:** '' @ str_nat (length fs))]
      | None \<Rightarrow> [])"

text \<open>Hosted mode: the uploader, the Load ZIP button, the upload status.\<close>

definition load_zip :: "inputs \<Rightarrow> ('c, 'l) page \<Rightarrow> ('c, 'l) page flow" where
  "load_zip inp = (\<lambda>(s, out).
     case file_uploader inp of
       Some z \<Rightarrow>
         if load_zip_button inp
         then Halt Rerun (del_files (del_collection (s\<lparr>uploaded_zip := Some z\<rparr>)), out)
         else Next (s, out)
     | None \<Rightarrow> Next (s, out))"

definition upload_status :: "('c, 'l) page \<Rightarrow> ('c, 'l) page flow" where
  "upload_status = (\<lambda>(s, out).
     case uploaded_zip s of
       Some z \<Rightarrow>
         Next (s, out @ [StMarkdown ''---'', StSuccess ''**ZIP Uploaded:**'', StCode (name z)]
                      @ files_indexed s)
     | None \<Rightarrow> Next (s, out))"

text \<open>Local mode: the folder path input, the Load Folder button, the current folder.\<close>

definition load_folder ::
  "('c, 'k, 'l, 'h) world \<Rightarrow> inputs \<Rightarrow> ('c, 'l) page \<Rightarrow> ('c, 'l) page flow" where
  "load_folder w inp = (\<lambda>(s, out).
     if load_folder_button inp then
       if text_input inp \<noteq> [] \<and> path_exists w (text_input inp) then
         Halt Rerun (del_files (del_collection (s\<lparr>folder_path := Some (text_input inp)\<rparr>)), out)
       else if text_input inp \<noteq> [] then
         Next (del_folder_path (del_files s),
               out @ [StError ''Folder not found. Please check the path.''])
       else Next (s, out @ [StInfo ''Please enter a folder path''])
     else Next (s, out))"

definition current_folder :: "('c, 'l) page \<Rightarrow> ('c, 'l) page flow" where
  "current_folder = (\<lambda>(s, out).
     case folder_path s of
       Some fp \<Rightarrow>
         Next (s, out @ [StMarkdown ''---'', StSuccess ''**Current Folder:**'', StCode fp]
                      @ files_indexed s)
     | None \<Rightarrow> Next (s, out))"

definition clear_chat :: "inputs \<Rightarrow> ('c, 'l) page \<Rightarrow> ('c, 'l) page flow" where
  "clear_chat inp = (\<lambda>(s, out).
     if clear_chat_button inp then Halt Rerun (s\<lparr>messages := Some []\<rparr>, out)
     else Next (s, out))"

text \<open>\<^verbatim>\<open>app.py\<close>, \<^verbatim>\<open>render_sidebar\<close>.\<close>

definition render_sidebar ::
  "('c, 'k, 'l, 'h) world \<Rightarrow> inputs \<Rightarrow> ('c, 'l) page \<Rightarrow> ('c, 'l) page flow" where
  "render_sidebar w inp =
     seq (emit [StTitle ''Document Settings''])
    (seq (if is_streamlit_cloud (environ w)
          then seq (load_zip inp) upload_status
          else seq (load_folder w inp) current_folder)
    (seq (emit [StMarkdown ''---''])
         (clear_chat inp)))"

subsection \<open>Resolving the document source\<close>

text \<open>\<^verbatim>\<open>app.py\<close>, \<^verbatim>\<open>extract_zip_and_scan\<close>: the temporary directory and the files found.\<close>

definition extract_zip_and_scan ::
  "('c, 'k, 'l, 'h) world \<Rightarrow> uploaded_file \<Rightarrow> string \<times> string list" where
  "extract_zip_and_scan w z =
     (let temp_dir = mkdtemp w;
          files = scan_extracted w z temp_dir
      in (temp_dir, files))"

text \<open>
  The top-level block that follows the sidebar: a recorded folder is scanned
  again in every execution; an archive is looked at only when no folder is
  recorded; with neither, the script stops.
\<close>

definition resolve_source ::
  "('c, 'k, 'l, 'h) world \<Rightarrow> ('c, 'l) page \<Rightarrow> ('c, 'l) page flow" where
  "resolve_source w = (\<lambda>(s, out).
     case folder_path s of
       Some fp \<Rightarrow>
         (let fs = scan_folders w fp in
          if fs = [] then
            (let s1 = (if show_popup s = None then s\<lparr>show_popup := Some True\<rparr> else s)
             in Halt Stop
                  (s1, if show_popup s1 = Some True
                       then out @ [StInfo ''No documents found''] else out))
          else Next (s\<lparr>files := Some fs\<rparr>, out))
     | None \<Rightarrow>
         (case uploaded_zip s of
            Some z \<Rightarrow>
              (case extract_zip_and_scan w z of
                 (td, fs) \<Rightarrow>
                   if fs = [] then Halt Stop (s, out @ [StInfo ''No documents found in ZIP''])
                   else Next (s\<lparr>files := Some fs, temp_dir := Some td\<rparr>, out))
          | None \<Rightarrow> Halt Stop (s, out)))"

subsection \<open>Indexing\<close>

text \<open>The dictionary \<^verbatim>\<open>loaders\<close> of \<^verbatim>\<open>app.py\<close>, from extensions to loader functions.\<close>

definition loaders ::
  "('c, 'k, 'l, 'h) world \<Rightarrow> string \<rightharpoonup> (string \<Rightarrow> py_exception + string)" where
  "loaders w =
     map_of [(''.txt'', load_txt w), (''.pdf'', load_pdf w),
             (''.docx'', load_docx w), (''.odt'', load_odt w)]"

text \<open>
  The body of the first \<^verbatim>\<open>try\<close> of the loop: \<^verbatim>\<open>fn = loaders[extension]\<close> raises
  \<^verbatim>\<open>KeyError\<close> for an extension that is not a key, then \<^verbatim>\<open>content = fn(file)\<close>.
\<close>

definition load_content ::
  "('c, 'k, 'l, 'h) world \<Rightarrow> string \<Rightarrow> py_exception + string" where
  "load_content w file =
     (case loaders w (splitext_ext file) of
        None \<Rightarrow> Inl KeyError
      | Some fn \<Rightarrow> fn file)"

text \<open>
  The second half of the loop body: chunk the content and, when there are chunks,
  insert them; any exception of the insertion is caught and reported, and the
  collection variable keeps its value.
\<close>

definition add_file_chunks ::
  "('c, 'k, 'l, 'h) world \<Rightarrow> string \<Rightarrow> string \<Rightarrow> 'c \<times> ui_event list
     \<Rightarrow> ('c \<times> ui_event list) flow" where
  "add_file_chunks w file doc = (\<lambda>(coll, out).
     let chunks = chunk_text w doc file in
     if chunks \<noteq> [] then
       (case add_chunks w chunks coll of
          Inr coll' \<Rightarrow> Next (coll', out)
        | Inl e \<Rightarrow> Next (coll, out @ [StWrite (''Error processing file '' @ file @ ''. Skipping.'')]))
     else Next (coll, out))"

text \<open>
  One iteration of the loop, for the file at index \<open>i\<close> of \<open>n\<close> files. Only
  \<^verbatim>\<open>KeyError\<close> is caught around the loader; any other exception of the loader
  leaves the loop and the function.
\<close>

definition index_file ::
  "('c, 'k, 'l, 'h) world \<Rightarrow> nat \<Rightarrow> nat \<Rightarrow> string \<Rightarrow> 'c \<times> ui_event list
     \<Rightarrow> ('c \<times> ui_event list) flow" where
  "index_file w n i file = (\<lambda>(coll, out).
     let out1 = out @ [StProgress (i + 1) n] in
     case load_content w file of
       Inr doc \<Rightarrow> add_file_chunks w file doc (coll, out1)
     | Inl e \<Rightarrow>
         if e = KeyError then
           add_file_chunks w file []
             (coll, out1 @ [StWrite (''File '' @ file @ '' not supported. Skipping.'')])
         else Halt (Uncaught e) (coll, out1))"

fun index_files ::
  "('c, 'k, 'l, 'h) world \<Rightarrow> nat \<Rightarrow> nat \<Rightarrow> string list \<Rightarrow> 'c \<times> ui_event list
     \<Rightarrow> ('c \<times> ui_event list) flow" where
  "index_files w n i [] p = Next p"
| "index_files w n i (file # rest) p =
     (case index_file w n i file p of
        Next p' \<Rightarrow> index_files w n (Suc i) rest p'
      | Halt h p' \<Rightarrow> Halt h p')"

text \<open>
  After the loop: the file-name index is inserted; a failure is caught and
  reported, and the collection of the loop is the one that is kept.
\<close>

definition add_file_index ::
  "('c, 'k, 'l, 'h) world \<Rightarrow> string list \<Rightarrow> 'c \<times> ui_event list \<Rightarrow> 'c \<times> ui_event list" where
  "add_file_index w fs = (\<lambda>(coll, out).
     let file_index = create_file_index_chunk w fs in
     case add_chunks w file_index coll of
       Inr coll' \<Rightarrow> (coll', out)
     | Inl e \<Rightarrow>
         (coll, out @ [StWrite
            ''Warning: Could not index file names. You can still search document content.'']))"

text \<open>\<^verbatim>\<open>app.py\<close>, \<^verbatim>\<open>initialize_vector_store\<close>.\<close>

definition initialize_vector_store ::
  "('c, 'k, 'l, 'h) world \<Rightarrow> string \<Rightarrow> string list \<Rightarrow> ('c, 'l) page \<Rightarrow> ('c, 'l) page flow" where
  "initialize_vector_store w path fs = (\<lambda>(s, out).
     if collection s = None then
       (case create_collection w path of
          Inl e \<Rightarrow>
            Halt Stop (s, out @ [StWrite ''Error setting up the document storage system.''])
        | Inr coll0 \<Rightarrow>
            (case index_files w (length fs) 0 fs (coll0, out @ [StProgress 0 1]) of
               Halt h (coll, out1) \<Rightarrow> Halt h (s, out1)
             | Next p \<Rightarrow>
                 (case add_file_index w fs p of
                    (coll, out2) \<Rightarrow> Halt Rerun (s\<lparr>collection := Some coll\<rparr>, out2))))
     else Next (s, out))"

text \<open>
  The call at top level, with its arguments: the scope of the collection is the
  archive's name in hosted mode and the folder path in local mode; reading a key
  that is absent from the session state raises \<^verbatim>\<open>AttributeError\<close>.
\<close>

definition collection_path ::
  "('c, 'k, 'l, 'h) world \<Rightarrow> ('c, 'l) session_state \<Rightarrow> py_exception + string" where
  "collection_path w s =
     (if is_streamlit_cloud (environ w) then
        (case uploaded_zip s of
           Some z \<Rightarrow> Inr (name z)
         | None \<Rightarrow> Inl (AttributeError ''uploaded_zip''))
      else
        (case folder_path s of
           Some fp \<Rightarrow> Inr fp
         | None \<Rightarrow> Inl (AttributeError ''folder_path'')))"

definition index_documents ::
  "('c, 'k, 'l, 'h) world \<Rightarrow> ('c, 'l) page \<Rightarrow> ('c, 'l) page flow" where
  "index_documents w = (\<lambda>(s, out).
     case collection_path w s of
       Inl e \<Rightarrow> Halt (Uncaught e) (s, out)
     | Inr path \<Rightarrow>
         (case files s of
            None \<Rightarrow> Halt (Uncaught (AttributeError ''files'')) (s, out)
          | Some fs \<Rightarrow> initialize_vector_store w path fs (s, out)))"

subsection \<open>Chat\<close>

text \<open>\<^verbatim>\<open>app.py\<close>, \<^verbatim>\<open>handle_chat_input\<close>; an empty input is falsy, like no input.\<close>

definition handle_chat_input ::
  "('c, 'k, 'l, 'h) world \<Rightarrow> 'c \<Rightarrow> 'l \<Rightarrow> inputs \<Rightarrow> ('c, 'l) page \<Rightarrow> ('c, 'l) page flow" where
  "handle_chat_input w coll client inp = (\<lambda>(s, out).
     case chat_input inp of
       None \<Rightarrow> Next (s, out)
     | Some user_input \<Rightarrow>
         if user_input = [] then Next (s, out)
         else
           (case messages s of
              None \<Rightarrow> Halt (Uncaught (AttributeError ''messages'')) (s, out)
            | Some ms \<Rightarrow>
                (let ms1 = ms @ [\<lparr>role = ''user'', content = user_input\<rparr>];
                     out1 = out @ [StChatMessage ''user'' user_input]
                 in case query_documents w coll user_input of
                      Inl e \<Rightarrow>
                        Halt Stop
                          (s\<lparr>messages := Some ms1\<rparr>,
                           out1 @ [StInfo ''Error searching documents. Please try again.''])
                    | Inr related_chunks \<Rightarrow>
                        (let history = set_langchain_history w ms1;
                             answer = generate_answer w client user_input related_chunks history
                         in Next
                              (s\<lparr>messages := Some (ms1 @ [\<lparr>role = ''assistant'', content = answer\<rparr>])\<rparr>,
                               out1 @ [StChatMessage ''assistant'' answer])))))"

text \<open>The last top-level block: the client, the history, its replay, the chat input.\<close>

definition ensure_llm ::
  "('c, 'k, 'l, 'h) world \<Rightarrow> ('c, 'l) page \<Rightarrow> ('c, 'l) page flow" where
  "ensure_llm w = (\<lambda>(s, out).
     if llm s = None then Next (s\<lparr>llm := Some (set_llm w)\<rparr>, out) else Next (s, out))"

definition ensure_messages :: "('c, 'l) page \<Rightarrow> ('c, 'l) page flow" where
  "ensure_messages = (\<lambda>(s, out).
     if messages s = None then Next (s\<lparr>messages := Some []\<rparr>, out) else Next (s, out))"

definition replay_history :: "('c, 'l) page \<Rightarrow> ('c, 'l) page flow" where
  "replay_history = (\<lambda>(s, out).
     case messages s of
       None \<Rightarrow> Halt (Uncaught (AttributeError ''messages'')) (s, out)
     | Some ms \<Rightarrow> Next (s, out @ map (\<lambda>m. StChatMessage (role m) (content m)) ms))"

definition chat ::
  "('c, 'k, 'l, 'h) world \<Rightarrow> inputs \<Rightarrow> ('c, 'l) page \<Rightarrow> ('c, 'l) page flow" where
  "chat w inp = (\<lambda>(s, out).
     case llm s of
       None \<Rightarrow> Halt (Uncaught (AttributeError ''llm'')) (s, out)
     | Some client \<Rightarrow>
         (case collection s of
            None \<Rightarrow> Halt (Uncaught (AttributeError ''collection'')) (s, out)
          | Some coll \<Rightarrow> handle_chat_input w coll client inp (s, out)))"

subsection \<open>One execution of the script, and a session\<close>

definition app ::
  "('c, 'k, 'l, 'h) world \<Rightarrow> inputs \<Rightarrow> ('c, 'l) session_state \<Rightarrow> ('c, 'l) page flow" where
  "app w inp s =
     seq (emit [StTitle ''Chat with your documents!'', StWrite (today w)])
    (seq (render_sidebar w inp)
    (seq (resolve_source w)
    (seq (index_documents w)
    (seq (ensure_llm w)
    (seq ensure_messages
    (seq replay_history
         (chat w inp))))))) (s, [])"

text \<open>
  A session is a sequence of executions, each with the answers of the outside
  world and the widget values of that execution; the session state is carried
  from one to the next, however the execution ended.
\<close>

fun run_session ::
  "(('c, 'k, 'l, 'h) world \<times> inputs) list \<Rightarrow> ('c, 'l) session_state \<Rightarrow> ('c, 'l) session_state" where
  "run_session [] s = s"
| "run_session ((w, inp) # cycles) s = run_session cycles (fst (flow_state (app w inp s)))"

text \<open>The pages shown by the executions of a session, one per execution.\<close>

fun session_pages ::
  "(('c, 'k, 'l, 'h) world \<times> inputs) list \<Rightarrow> ('c, 'l) session_state \<Rightarrow> ui_event list list" where
  "session_pages [] s = []"
| "session_pages ((w, inp) # cycles) s =
     snd (flow_state (app w inp s))
       # session_pages cycles (fst (flow_state (app w inp s)))"

subsection \<open>A concrete outside world\<close>

text \<open>
  A small world on which the definitions run: local mode, a folder \<^verbatim>\<open>/docs\<close> with
  a PDF and a text file, a collection that is the list of the chunks inserted so
  far, and a chunker that gives one chunk per non-empty document.
\<close>

definition demo_world :: "(string list, string, unit, unit) world" where
  "demo_world =
     \<lparr>environ = Map.empty, secrets = Map.empty, dotenv_file = Map.empty,
      today = ''05 Jan, 2025'',
      path_exists = (\<lambda>p. p = ''/docs''),
      scan_folders = (\<lambda>p. if p = ''/docs'' then [''/docs/a.pdf'', ''/docs/b.txt''] else []),
      mkdtemp = ''/tmp/tmpabc'',
      scan_extracted = (\<lambda>z d. [d @ ''/b.txt'']),
      load_txt = (\<lambda>f. Inr ''The sky is blue.''),
      load_pdf = (\<lambda>f. Inr ''Grass is green.''),
      load_docx = (\<lambda>f. Inr []),
      load_odt = (\<lambda>f. Inr []),
      chunk_text = (\<lambda>doc f. if doc = [] then [] else [f @ '': '' @ doc]),
      create_collection = (\<lambda>p. Inr []),
      add_chunks = (\<lambda>ks c. Inr (c @ ks)),
      create_file_index_chunk = (\<lambda>fs. [''files: '' @ concat fs]),
      query_documents = (\<lambda>c q. Inr c),
      set_llm = (),
      set_langchain_history = (\<lambda>ms. ()),
      generate_answer = (\<lambda>client q ks h. ''Blue.'')\<rparr>"

text \<open>The same machine in hosted mode.\<close>

definition cloud_world :: "(string list, string, unit, unit) world" where
  "cloud_world = demo_world\<lparr>environ := [''STREAMLIT_SHARING_MODE'' \<mapsto> ''1'']\<rparr>"

text \<open>The PDF loader fails on a corrupt file.\<close>

definition corrupt_pdf_world :: "(string list, string, unit, unit) world" where
  "corrupt_pdf_world = demo_world\<lparr>load_pdf := (\<lambda>f. Inl (OtherException ''corrupt PDF''))\<rparr>"

text \<open>The folder \<^verbatim>\<open>/docs\<close> exists and holds no supported file.\<close>

definition empty_folder_world :: "(string list, string, unit, unit) world" where
  "empty_folder_world = demo_world\<lparr>scan_folders := (\<lambda>p. [])\<rparr>"

text \<open>The similarity search fails.\<close>

definition failing_search_world :: "(string list, string, unit, unit) world" where
  "failing_search_world =
     demo_world\<lparr>query_documents := (\<lambda>c q. Inl (OtherException ''store unavailable''))\<rparr>"

text \<open>Inserting the file-name index fails; inserting content chunks works.\<close>

definition failing_index_world :: "(string list, string, unit, unit) world" where
  "failing_index_world =
     demo_world\<lparr>add_chunks :=
       (\<lambda>ks c. if ks = [''files: /docs/a.pdf/docs/b.txt'']
                then Inl (OtherException ''embedding failed'') else Inr (c @ ks))\<rparr>"

text \<open>An execution in which the user touches no widget.\<close>

definition no_input :: inputs where
  "no_input =
     \<lparr>file_uploader = None, load_zip_button = False, text_input = [],
      load_folder_button = False, clear_chat_button = False, chat_input = None\<rparr>"

definition docs_session :: "(string list, unit) session_state" where
  "docs_session = empty_session\<lparr>folder_path := Some ''/docs''\<rparr>"

text \<open>
  A session that has indexed an earlier folder and holds one exchange of chat.
\<close>

definition indexed_session :: "(string list, unit) session_state" where
  "indexed_session =
     \<lparr>folder_path = Some ''/old'', uploaded_zip = None,
      files = Some [''/old/x.txt''], temp_dir = None,
      collection = Some [''/old/x.txt: hello''], llm = Some (),
      messages = Some [\<lparr>role = ''user'', content = ''hi''\<rparr>,
                       \<lparr>role = ''assistant'', content = ''Blue.''\<rparr>],
      show_popup = Some True\<rparr>"

definition demo_zip :: uploaded_file where
  "demo_zip = \<lparr>name = ''docs.zip'', data = ''PK''\<rparr>"

subsection \<open>The shape of the message history\<close>

text \<open>
  A chat turn is well formed when its role is one of the two role names. Its
  content is a string by its type: \<^verbatim>\<open>st.chat_input\<close> returns a string, and the
  answer of \<open>generate_answer\<close> is text.
\<close>

definition valid_message :: "message \<Rightarrow> bool" where
  "valid_message m = (role m = ''user'' \<or> role m = ''assistant'')"

definition history_ok :: "('c, 'l) session_state \<Rightarrow> bool" where
  "history_ok s =
     (case messages s of None \<Rightarrow> True | Some ms \<Rightarrow> list_all valid_message ms)"

section \<open>Properties\<close>

subsection \<open>Environment detection\<close>

text \<open>
  C4. The two detection algorithms can disagree: on every process environment
  that holds none of the variables \<^verbatim>\<open>STREAMLIT_RUNTIME\<close>, \<^verbatim>\<open>STREAMLIT_SHARING_MODE\<close>,
  \<^verbatim>\<open>STREAMLIT_SERVER_HEADLESS\<close>, \<^verbatim>\<open>STREAMLIT_HOME\<close>, with a host name that contains
  \<^verbatim>\<open>cloud\<close>, Algorithm A of the application shell answers false and Algorithm B
  of the configuration helper answers true. The witness gives such an
  environment: no variable at all, host name \<^verbatim>\<open>my-cloud-box\<close>.
\<close>

theorem detectors_disagree:
  assumes "''STREAMLIT_RUNTIME'' \<notin> dom env"
    and "''STREAMLIT_SHARING_MODE'' \<notin> dom env"
    and "''STREAMLIT_SERVER_HEADLESS'' \<notin> dom env"
    and "''STREAMLIT_HOME'' \<notin> dom env"
    and "str_in ''cloud'' hostname"
  shows "\<not> is_streamlit_cloud env \<and> config_is_streamlit_cloud env hostname"
  using assms by (simp add: is_streamlit_cloud_def config_is_streamlit_cloud_def)

theorem detectors_disagree_witness:
  "''STREAMLIT_RUNTIME'' \<notin> dom (Map.empty :: environ) \<and>
   ''STREAMLIT_SHARING_MODE'' \<notin> dom (Map.empty :: environ) \<and>
   ''STREAMLIT_SERVER_HEADLESS'' \<notin> dom (Map.empty :: environ) \<and>
   ''STREAMLIT_HOME'' \<notin> dom (Map.empty :: environ) \<and>
   str_in ''cloud'' ''my-cloud-box'' \<and>
   \<not> is_streamlit_cloud Map.empty \<and>
   config_is_streamlit_cloud Map.empty ''my-cloud-box''"
proof -
  have h: "str_in ''cloud'' ''my-cloud-box''"
    unfolding str_in_def by code_simp
  from detectors_disagree [of Map.empty "''my-cloud-box''"] h show ?thesis
    by simp
qed

subsection \<open>Helper facts about the session state\<close>

lemma del_files_del_collection:
  "del_files (del_collection s) = s\<lparr>collection := None, files := None\<rparr>"
  by (cases s) (simp add: del_files_def del_collection_def)

lemma del_folder_path_del_files:
  "del_folder_path (del_files s) = s\<lparr>files := None, folder_path := None\<rparr>"
  by (cases s) (simp add: del_files_def del_folder_path_def)

lemma demo_world_local: "\<not> is_streamlit_cloud (environ demo_world)"
  by (simp add: demo_world_def is_streamlit_cloud_def)

lemma cloud_world_hosted: "is_streamlit_cloud (environ cloud_world)"
  by (simp add: cloud_world_def demo_world_def is_streamlit_cloud_def)

subsection \<open>Retrieval failure\<close>

text \<open>
  C5. When a non-empty question is submitted and the similarity search fails,
  the question has already been appended to the history as a user turn, the
  informational notice is shown, the script stops, and the history ends with
  that user turn: no assistant turn is appended.
\<close>

theorem retrieval_failure_leaves_user_turn:
  assumes "chat_input inp = Some q" and "q \<noteq> []" and "messages s = Some ms"
    and "query_documents w coll q = Inl e"
  shows "handle_chat_input w coll client inp (s, out) =
           Halt Stop
             (s\<lparr>messages := Some (ms @ [\<lparr>role = ''user'', content = q\<rparr>])\<rparr>,
              out @ [StChatMessage ''user'' q,
                     StInfo ''Error searching documents. Please try again.''])"
  using assms by (simp add: handle_chat_input_def)

theorem retrieval_failure_leaves_user_turn_witness:
  "handle_chat_input failing_search_world [] ()
      (no_input\<lparr>chat_input := Some ''What color is the sky?''\<rparr>)
      (docs_session\<lparr>messages := Some []\<rparr>, []) =
   Halt Stop
     (docs_session\<lparr>messages := Some [\<lparr>role = ''user'', content = ''What color is the sky?''\<rparr>]\<rparr>,
      [StChatMessage ''user'' ''What color is the sky?'',
       StInfo ''Error searching documents. Please try again.''])"
  using retrieval_failure_leaves_user_turn
    [of "no_input\<lparr>chat_input := Some ''What color is the sky?''\<rparr>" "''What color is the sky?''"
        "docs_session\<lparr>messages := Some []\<rparr>" "[]" failing_search_world "[]"
        "OtherException ''store unavailable''" "()" "[]"]
  by (simp add: failing_search_world_def demo_world_def no_input_def)

text \<open>
  The same in a whole execution of the script, in local mode with an indexed
  folder and no button pressed: the execution stops after the notice, and the
  history it leaves is the old one followed by the user turn.
\<close>

lemma retrieval_failure_execution:
  assumes "\<not> is_streamlit_cloud (environ w)"
    and "\<not> load_folder_button inp" and "\<not> clear_chat_button inp"
    and "folder_path s = Some fp" and "scan_folders w fp \<noteq> []"
    and "collection s = Some coll" and "llm s = Some client" and "messages s = Some ms"
    and "chat_input inp = Some q" and "q \<noteq> []"
    and "query_documents w coll q = Inl e"
  shows "app w inp s =
           Halt Stop
             (s\<lparr>files := Some (scan_folders w fp),
                messages := Some (ms @ [\<lparr>role = ''user'', content = q\<rparr>])\<rparr>,
              [StTitle ''Chat with your documents!'', StWrite (today w),
               StTitle ''Document Settings'', StMarkdown ''---'',
               StSuccess ''**Current Folder:**'', StCode fp]
              @ files_indexed s
              @ [StMarkdown ''---'']
              @ map (\<lambda>m. StChatMessage (role m) (content m)) ms
              @ [StChatMessage ''user'' q,
                 StInfo ''Error searching documents. Please try again.''])"
  using assms
  by (simp add: app_def seq_def emit_def render_sidebar_def load_folder_def
      current_folder_def clear_chat_def resolve_source_def index_documents_def
      collection_path_def initialize_vector_store_def ensure_llm_def ensure_messages_def
      replay_history_def chat_def handle_chat_input_def)

subsection \<open>The Load Folder action\<close>

text \<open>
  C6. In local mode, pressing Load Folder with a non-empty path that exists
  records the path, leaves the session state without a collection and without
  a file list, and restarts the script. This holds whether or not the path
  differs from the one recorded before.
\<close>

theorem load_folder_commits_and_invalidates:
  assumes "\<not> is_streamlit_cloud (environ w)" and "load_folder_button inp"
    and "text_input inp \<noteq> []" and "path_exists w (text_input inp)"
  shows "render_sidebar w inp (s, out) =
           Halt Rerun
             (s\<lparr>folder_path := Some (text_input inp), collection := None, files := None\<rparr>,
              out @ [StTitle ''Document Settings''])"
  using assms
  by (simp add: render_sidebar_def seq_def emit_def load_folder_def del_files_del_collection)

theorem load_folder_commits_and_invalidates_witness:
  "render_sidebar demo_world
      (no_input\<lparr>text_input := ''/docs'', load_folder_button := True\<rparr>) (indexed_session, []) =
   Halt Rerun
     (indexed_session\<lparr>folder_path := Some ''/docs'', collection := None, files := None\<rparr>,
      [StTitle ''Document Settings''])"
  using load_folder_commits_and_invalidates
    [of demo_world "no_input\<lparr>text_input := ''/docs'', load_folder_button := True\<rparr>"
        indexed_session "[]"]
    demo_world_local
  by (simp add: no_input_def) (simp add: demo_world_def)

text \<open>
  With no collection in the session state, \<open>initialize_vector_store\<close> does not
  fall through: it creates the collection and indexes, so indexing runs again
  in the execution that follows a committed folder.
\<close>

lemma initialize_runs_when_collection_absent:
  assumes "collection s = None"
  shows "\<exists>h p. initialize_vector_store w path fs (s, out) = Halt h p"
  using assms
  by (simp add: initialize_vector_store_def split: sum.splits flow.splits prod.splits)

text \<open>
  C8. In local mode, pressing Load Folder with a non-empty path that does not
  exist shows the error notice and leaves the session state without a file
  list and without a folder path; the sidebar then ends normally, or with the
  restart that the Clear Chat History button asks for, never with an exception.
\<close>

theorem missing_folder_reports_and_clears:
  assumes "\<not> is_streamlit_cloud (environ w)" and "load_folder_button inp"
    and "text_input inp \<noteq> []" and "\<not> path_exists w (text_input inp)"
  shows "render_sidebar w inp (s, out) =
           (if clear_chat_button inp
            then Halt Rerun
                   (s\<lparr>files := None, folder_path := None, messages := Some []\<rparr>,
                    out @ [StTitle ''Document Settings'',
                           StError ''Folder not found. Please check the path.'',
                           StMarkdown ''---''])
            else Next
                   (s\<lparr>files := None, folder_path := None\<rparr>,
                    out @ [StTitle ''Document Settings'',
                           StError ''Folder not found. Please check the path.'',
                           StMarkdown ''---'']))"
  using assms
  by (simp add: render_sidebar_def seq_def emit_def load_folder_def del_folder_path_del_files
      current_folder_def clear_chat_def)

theorem missing_folder_reports_and_clears_witness:
  "render_sidebar demo_world
      (no_input\<lparr>text_input := ''/nowhere'', load_folder_button := True\<rparr>) (indexed_session, []) =
   Next
     (indexed_session\<lparr>files := None, folder_path := None\<rparr>,
      [StTitle ''Document Settings'',
       StError ''Folder not found. Please check the path.'',
       StMarkdown ''---''])"
  using missing_folder_reports_and_clears
    [of demo_world "no_input\<lparr>text_input := ''/nowhere'', load_folder_button := True\<rparr>"
        indexed_session "[]"]
    demo_world_local
  by (simp add: no_input_def) (simp add: demo_world_def)

text \<open>
  The whole execution in that case, for a session that holds no uploaded
  archive: it stops at the source resolution, since no folder is recorded.
\<close>

lemma missing_folder_execution:
  assumes "\<not> is_streamlit_cloud (environ w)" and "load_folder_button inp"
    and "text_input inp \<noteq> []" and "\<not> path_exists w (text_input inp)"
    and "uploaded_zip s = None" and "\<not> clear_chat_button inp"
  shows "app w inp s =
           Halt Stop
             (s\<lparr>files := None, folder_path := None\<rparr>,
              [StTitle ''Chat with your documents!'', StWrite (today w),
               StTitle ''Document Settings'',
               StError ''Folder not found. Please check the path.'',
               StMarkdown ''---''])"
  using assms
  by (simp add: app_def render_sidebar_def seq_def emit_def load_folder_def
      del_folder_path_del_files current_folder_def clear_chat_def resolve_source_def)

subsection \<open>What a change of source leaves alone\<close>

text \<open>
  C9. An execution in which a new source is committed (Load Folder with a
  non-empty existing path in local mode, Load ZIP with an uploaded archive in
  hosted mode) ends with the restart, and its session state is the old one
  with the source recorded and the collection and the file list removed: every
  other entry, among them the message history, the LLM client, the temporary
  directory and the \<open>show_popup\<close> flag, is unchanged.
\<close>

theorem source_change_keeps_rest_of_session:
  "(\<not> is_streamlit_cloud (environ w) \<and> load_folder_button inp \<and>
      text_input inp \<noteq> [] \<and> path_exists w (text_input inp) \<longrightarrow>
      app w inp s =
        Halt Rerun
          (s\<lparr>folder_path := Some (text_input inp), collection := None, files := None\<rparr>,
           [StTitle ''Chat with your documents!'', StWrite (today w),
            StTitle ''Document Settings''])) \<and>
   (is_streamlit_cloud (environ w) \<and> file_uploader inp = Some z \<and> load_zip_button inp \<longrightarrow>
      app w inp s =
        Halt Rerun
          (s\<lparr>uploaded_zip := Some z, collection := None, files := None\<rparr>,
           [StTitle ''Chat with your documents!'', StWrite (today w),
            StTitle ''Document Settings'']))"
  by (simp add: app_def render_sidebar_def seq_def emit_def load_folder_def load_zip_def
      del_files_del_collection)

theorem source_change_keeps_rest_of_session_witness:
  "app demo_world (no_input\<lparr>text_input := ''/docs'', load_folder_button := True\<rparr>)
      indexed_session =
     Halt Rerun
       (\<lparr>folder_path = Some ''/docs'', uploaded_zip = None, files = None, temp_dir = None,
         collection = None, llm = Some (),
         messages = Some [\<lparr>role = ''user'', content = ''hi''\<rparr>,
                          \<lparr>role = ''assistant'', content = ''Blue.''\<rparr>],
         show_popup = Some True\<rparr>,
        [StTitle ''Chat with your documents!'', StWrite ''05 Jan, 2025'',
         StTitle ''Document Settings'']) \<and>
   app cloud_world (no_input\<lparr>file_uploader := Some demo_zip, load_zip_button := True\<rparr>)
      indexed_session =
     Halt Rerun
       (\<lparr>folder_path = Some ''/old'', uploaded_zip = Some demo_zip, files = None,
         temp_dir = None, collection = None, llm = Some (),
         messages = Some [\<lparr>role = ''user'', content = ''hi''\<rparr>,
                          \<lparr>role = ''assistant'', content = ''Blue.''\<rparr>],
         show_popup = Some True\<rparr>,
        [StTitle ''Chat with your documents!'', StWrite ''05 Jan, 2025'',
         StTitle ''Document Settings''])"
proof -
  have local: "path_exists demo_world ''/docs''" "today demo_world = ''05 Jan, 2025''"
    by (simp_all add: demo_world_def)
  have hosted: "today cloud_world = ''05 Jan, 2025''"
    by (simp add: cloud_world_def demo_world_def)
  from source_change_keeps_rest_of_session
    [of demo_world "no_input\<lparr>text_input := ''/docs'', load_folder_button := True\<rparr>"
        indexed_session demo_zip]
    demo_world_local local
  have a: "app demo_world (no_input\<lparr>text_input := ''/docs'', load_folder_button := True\<rparr>)
      indexed_session =
     Halt Rerun
       (indexed_session\<lparr>folder_path := Some ''/docs'', collection := None, files := None\<rparr>,
        [StTitle ''Chat with your documents!'', StWrite ''05 Jan, 2025'',
         StTitle ''Document Settings''])"
    by (simp add: no_input_def)
  from source_change_keeps_rest_of_session
    [of cloud_world "no_input\<lparr>file_uploader := Some demo_zip, load_zip_button := True\<rparr>"
        indexed_session demo_zip]
    cloud_world_hosted hosted
  have b: "app cloud_world (no_input\<lparr>file_uploader := Some demo_zip, load_zip_button := True\<rparr>)
      indexed_session =
     Halt Rerun
       (indexed_session\<lparr>uploaded_zip := Some demo_zip, collection := None, files := None\<rparr>,
        [StTitle ''Chat with your documents!'', StWrite ''05 Jan, 2025'',
         StTitle ''Document Settings''])"
    by (simp add: no_input_def)
  from a b show ?thesis by (simp add: indexed_session_def)
qed

subsection \<open>Failure of the file-name index\<close>

text \<open>
  C7. When the collection has been created, the loop over the files has run
  to its end and the insertion of the file-name index fails, the warning is
  shown and the collection of the loop, with every content chunk that was
  inserted into it, is stored in the session state; the script restarts. With
  that session state indexing is complete (\<open>initialize_vector_store\<close> falls
  through), and once the LLM client is there the chat searches the stored
  collection.
\<close>

theorem file_index_failure_keeps_collection:
  assumes "collection s = None" and "create_collection w path = Inr coll0"
    and "index_files w (length fs) 0 fs (coll0, out @ [StProgress 0 1]) = Next (coll, out1)"
    and "add_chunks w (create_file_index_chunk w fs) coll = Inl e"
  shows "initialize_vector_store w path fs (s, out) =
           Halt Rerun
             (s\<lparr>collection := Some coll\<rparr>,
              out1 @ [StWrite
                ''Warning: Could not index file names. You can still search document content.'']) \<and>
         initialize_vector_store w' path' fs' (s\<lparr>collection := Some coll\<rparr>, out') =
           Next (s\<lparr>collection := Some coll\<rparr>, out') \<and>
         chat w' inp (s\<lparr>collection := Some coll, llm := Some client\<rparr>, out') =
           handle_chat_input w' coll client inp
             (s\<lparr>collection := Some coll, llm := Some client\<rparr>, out')"
  using assms by (simp add: initialize_vector_store_def add_file_index_def chat_def)

lemma failing_index_world_loop:
  "index_files failing_index_world (length [''/docs/a.pdf'', ''/docs/b.txt'']) 0
     [''/docs/a.pdf'', ''/docs/b.txt''] ([], [] @ [StProgress 0 1]) =
   Next ([''/docs/a.pdf: Grass is green.'', ''/docs/b.txt: The sky is blue.''],
         [StProgress 0 1, StProgress 1 2, StProgress 2 2])"
  by (simp add: failing_index_world_def demo_world_def index_file_def load_content_def
      loaders_def splitext_ext_def add_file_chunks_def)

theorem file_index_failure_keeps_collection_witness:
  "initialize_vector_store failing_index_world ''/docs'' [''/docs/a.pdf'', ''/docs/b.txt'']
      (docs_session, []) =
     Halt Rerun
       (docs_session
          \<lparr>collection := Some [''/docs/a.pdf: Grass is green.'', ''/docs/b.txt: The sky is blue.'']\<rparr>,
        [StProgress 0 1, StProgress 1 2, StProgress 2 2,
         StWrite ''Warning: Could not index file names. You can still search document content.''])"
proof -
  have c: "collection docs_session = None"
    by (simp add: docs_session_def empty_session_def)
  have cr: "create_collection failing_index_world ''/docs'' = Inr []"
    by (simp add: failing_index_world_def demo_world_def)
  have ix: "add_chunks failing_index_world
              (create_file_index_chunk failing_index_world [''/docs/a.pdf'', ''/docs/b.txt''])
              [''/docs/a.pdf: Grass is green.'', ''/docs/b.txt: The sky is blue.''] =
            Inl (OtherException ''embedding failed'')"
    by (simp add: failing_index_world_def demo_world_def)
  from file_index_failure_keeps_collection [OF c cr failing_index_world_loop ix, THEN conjunct1]
  show ?thesis
    by simp
qed

subsection \<open>The message history keeps its shape\<close>

text \<open>
  Each piece of the script keeps \<open>history_ok\<close>; most of them do not touch the
  history at all.
\<close>

lemma seq_history:
  assumes f: "\<And>p. history_ok (fst p) \<Longrightarrow> history_ok (fst (flow_state (f p)))"
    and g: "\<And>p. history_ok (fst p) \<Longrightarrow> history_ok (fst (flow_state (g p)))"
    and p: "history_ok (fst p)"
  shows "history_ok (fst (flow_state (seq f g p)))"
proof (cases "f p")
  case (Next y)
  with f [OF p] have "history_ok (fst y)" by simp
  with g [of y] Next show ?thesis by (simp add: seq_def)
next
  case (Halt h y)
  with f [OF p] show ?thesis by (simp add: seq_def)
qed

lemma emit_history:
  "history_ok (fst p) \<Longrightarrow> history_ok (fst (flow_state (emit es p)))"
  by (cases p) (simp add: emit_def history_ok_def)

lemma load_zip_history:
  "history_ok (fst p) \<Longrightarrow> history_ok (fst (flow_state (load_zip inp p)))"
  by (cases p)
    (simp add: load_zip_def history_ok_def del_files_def del_collection_def
      split: option.splits)

lemma upload_status_history:
  "history_ok (fst p) \<Longrightarrow> history_ok (fst (flow_state (upload_status p)))"
  by (cases p) (simp add: upload_status_def split: option.splits)

lemma load_folder_history:
  "history_ok (fst p) \<Longrightarrow> history_ok (fst (flow_state (load_folder w inp p)))"
  by (cases p)
    (simp add: load_folder_def history_ok_def del_files_def del_collection_def
      del_folder_path_def)

lemma current_folder_history:
  "history_ok (fst p) \<Longrightarrow> history_ok (fst (flow_state (current_folder p)))"
  by (cases p) (simp add: current_folder_def split: option.splits)

lemma clear_chat_history:
  "history_ok (fst p) \<Longrightarrow> history_ok (fst (flow_state (clear_chat inp p)))"
  by (cases p) (simp add: clear_chat_def history_ok_def)

lemma render_sidebar_history:
  assumes "history_ok (fst p)"
  shows "history_ok (fst (flow_state (render_sidebar w inp p)))"
proof -
  have cloud: "\<And>q. history_ok (fst q) \<Longrightarrow>
      history_ok (fst (flow_state (seq (load_zip inp) upload_status q)))"
    by (rule seq_history) (simp_all add: load_zip_history upload_status_history)
  have local: "\<And>q. history_ok (fst q) \<Longrightarrow>
      history_ok (fst (flow_state (seq (load_folder w inp) current_folder q)))"
    by (rule seq_history) (simp_all add: load_folder_history current_folder_history)
  have tail: "\<And>q. history_ok (fst q) \<Longrightarrow>
      history_ok (fst (flow_state (seq (emit [StMarkdown ''---'']) (clear_chat inp) q)))"
    by (rule seq_history) (simp_all add: emit_history clear_chat_history)
  have middle: "\<And>q. history_ok (fst q) \<Longrightarrow>
      history_ok (fst (flow_state
        (seq (if is_streamlit_cloud (environ w)
              then seq (load_zip inp) upload_status
              else seq (load_folder w inp) current_folder)
             (seq (emit [StMarkdown ''---'']) (clear_chat inp)) q)))"
    by (rule seq_history) (simp_all add: cloud local tail)
  show ?thesis
    unfolding render_sidebar_def
    by (rule seq_history) (simp_all add: emit_history middle assms)
qed

lemma resolve_source_history:
  "history_ok (fst p) \<Longrightarrow> history_ok (fst (flow_state (resolve_source w p)))"
  by (cases p)
    (simp add: resolve_source_def history_ok_def Let_def split: option.splits prod.splits)

lemma initialize_vector_store_history:
  "history_ok s \<Longrightarrow>
     history_ok (fst (flow_state (initialize_vector_store w path fs (s, out))))"
  by (simp add: initialize_vector_store_def history_ok_def
      split: sum.splits flow.splits prod.splits)

lemma index_documents_history:
  "history_ok (fst p) \<Longrightarrow> history_ok (fst (flow_state (index_documents w p)))"
  by (cases p)
    (simp add: index_documents_def initialize_vector_store_history
      split: sum.splits option.splits)

lemma ensure_llm_history:
  "history_ok (fst p) \<Longrightarrow> history_ok (fst (flow_state (ensure_llm w p)))"
  by (cases p) (simp add: ensure_llm_def history_ok_def)

lemma ensure_messages_history:
  "history_ok (fst p) \<Longrightarrow> history_ok (fst (flow_state (ensure_messages p)))"
  by (cases p) (simp add: ensure_messages_def history_ok_def)

lemma replay_history_history:
  "history_ok (fst p) \<Longrightarrow> history_ok (fst (flow_state (replay_history p)))"
  by (cases p) (simp add: replay_history_def split: option.splits)

lemma handle_chat_input_history:
  "history_ok s \<Longrightarrow>
     history_ok (fst (flow_state (handle_chat_input w coll client inp (s, out))))"
  by (simp add: handle_chat_input_def history_ok_def valid_message_def Let_def
      split: option.splits sum.splits)

lemma chat_history:
  "history_ok (fst p) \<Longrightarrow> history_ok (fst (flow_state (chat w inp p)))"
  by (cases p) (simp add: chat_def handle_chat_input_history split: option.splits)

lemma app_history:
  assumes "history_ok s"
  shows "history_ok (fst (flow_state (app w inp s)))"
proof -
  have s7: "\<And>q. history_ok (fst q) \<Longrightarrow>
      history_ok (fst (flow_state (seq replay_history (chat w inp) q)))"
    by (rule seq_history) (simp_all add: replay_history_history chat_history)
  have s6: "\<And>q. history_ok (fst q) \<Longrightarrow>
      history_ok (fst (flow_state
        (seq ensure_messages (seq replay_history (chat w inp)) q)))"
    by (rule seq_history) (simp_all add: ensure_messages_history s7)
  have s5: "\<And>q. history_ok (fst q) \<Longrightarrow>
      history_ok (fst (flow_state
        (seq (ensure_llm w) (seq ensure_messages (seq replay_history (chat w inp))) q)))"
    by (rule seq_history) (simp_all add: ensure_llm_history s6)
  have s4: "\<And>q. history_ok (fst q) \<Longrightarrow>
      history_ok (fst (flow_state
        (seq (index_documents w)
          (seq (ensure_llm w) (seq ensure_messages (seq replay_history (chat w inp)))) q)))"
    by (rule seq_history) (simp_all add: index_documents_history s5)
  have s3: "\<And>q. history_ok (fst q) \<Longrightarrow>
      history_ok (fst (flow_state
        (seq (resolve_source w)
          (seq (index_documents w)
            (seq (ensure_llm w) (seq ensure_messages (seq replay_history (chat w inp))))) q)))"
    by (rule seq_history) (simp_all add: resolve_source_history s4)
  have s2: "\<And>q. history_ok (fst q) \<Longrightarrow>
      history_ok (fst (flow_state
        (seq (render_sidebar w inp)
          (seq (resolve_source w)
            (seq (index_documents w)
              (seq (ensure_llm w)
                (seq ensure_messages (seq replay_history (chat w inp)))))) q)))"
    by (rule seq_history) (simp_all add: render_sidebar_history s3)
  show ?thesis
    unfolding app_def
    by (rule seq_history) (simp_all add: emit_history s2 assms)
qed

lemma run_session_history: "history_ok s \<Longrightarrow> history_ok (run_session cycles s)"
  by (induction cycles arbitrary: s) (auto simp: app_history)

lemma empty_session_history: "history_ok empty_session"
  by (simp add: history_ok_def empty_session_def)

text \<open>
  C10. Every turn of the message history has the role \<^verbatim>\<open>user\<close> or \<^verbatim>\<open>assistant\<close>
  (and a string as content, by the type of \<open>message\<close>), and this is kept by the
  chat handler (which appends the user turn and the answer), by the Clear Chat
  History action, by the initialisation of the history, by a whole execution of
  the script and so by every session.
\<close>

theorem history_invariant_preserved:
  assumes "history_ok s"
  shows "history_ok (fst (flow_state (handle_chat_input w coll client inp (s, out)))) \<and>
         history_ok (fst (flow_state (clear_chat inp (s, out)))) \<and>
         history_ok (fst (flow_state (ensure_messages (s, out)))) \<and>
         history_ok (fst (flow_state (app w inp s))) \<and>
         history_ok (run_session cycles s)"
  using assms
  by (simp add: handle_chat_input_history clear_chat_history ensure_messages_history
      app_history run_session_history)

theorem history_invariant_preserved_witness:
  "history_ok indexed_session \<and>
   history_ok (fst (flow_state
     (handle_chat_input demo_world [''/old/x.txt: hello''] ()
        (no_input\<lparr>chat_input := Some ''What color is the sky?''\<rparr>) (indexed_session, [])))) \<and>
   messages (fst (flow_state
     (handle_chat_input demo_world [''/old/x.txt: hello''] ()
        (no_input\<lparr>chat_input := Some ''What color is the sky?''\<rparr>) (indexed_session, [])))) =
     Some [\<lparr>role = ''user'', content = ''hi''\<rparr>,
           \<lparr>role = ''assistant'', content = ''Blue.''\<rparr>,
           \<lparr>role = ''user'', content = ''What color is the sky?''\<rparr>,
           \<lparr>role = ''assistant'', content = ''Blue.''\<rparr>]"
proof -
  have ok: "history_ok indexed_session"
    by (simp add: history_ok_def indexed_session_def valid_message_def)
  from history_invariant_preserved [OF ok, THEN conjunct1,
      of demo_world "[''/old/x.txt: hello'']" "()"
         "no_input\<lparr>chat_input := Some ''What color is the sky?''\<rparr>" "[]"]
  have "history_ok (fst (flow_state
     (handle_chat_input demo_world [''/old/x.txt: hello''] ()
        (no_input\<lparr>chat_input := Some ''What color is the sky?''\<rparr>) (indexed_session, []))))" .
  moreover have "messages (fst (flow_state
     (handle_chat_input demo_world [''/old/x.txt: hello''] ()
        (no_input\<lparr>chat_input := Some ''What color is the sky?''\<rparr>) (indexed_session, [])))) =
     Some [\<lparr>role = ''user'', content = ''hi''\<rparr>,
           \<lparr>role = ''assistant'', content = ''Blue.''\<rparr>,
           \<lparr>role = ''user'', content = ''What color is the sky?''\<rparr>,
           \<lparr>role = ''assistant'', content = ''Blue.''\<rparr>]"
    by (simp add: handle_chat_input_def no_input_def indexed_session_def demo_world_def Let_def)
  ultimately show ?thesis using ok by simp
qed

subsection \<open>Where the script departs from its description\<close>

text \<open>
  A loader that raises anything but \<^verbatim>\<open>KeyError\<close> ends the loop at that file: the
  exception is not caught, and the files after it are not looked at.
\<close>

lemma loader_failure_leaves_loop:
  assumes "load_content w file = Inl e" and "e \<noteq> KeyError"
  shows "index_files w n i (file # rest) (coll, out) =
           Halt (Uncaught e) (coll, out @ [StProgress (i + 1) n])"
  using assms by (simp add: index_file_def)

lemma loader_failure_leaves_initialize:
  assumes "collection s = None" and "create_collection w path = Inr coll0"
    and "load_content w file = Inl e" and "e \<noteq> KeyError"
  shows "initialize_vector_store w path (file # rest) (s, out) =
           Halt (Uncaught e) (s, out @ [StProgress 0 1, StProgress 1 (Suc (length rest))])"
  using assms by (simp add: initialize_vector_store_def index_file_def)

text \<open>
  C1. The claim is that a loader failure on one file gives a notice naming the
  file and that indexing goes on with the next file. The script does this for
  a failure of the chunk insertion, but around the loader it catches only
  \<^verbatim>\<open>KeyError\<close>. In the folder \<^verbatim>\<open>/docs\<close> with a corrupt \<^verbatim>\<open>a.pdf\<close> followed by \<^verbatim>\<open>b.txt\<close>,
  the execution ends with the loader's exception uncaught, after the progress
  bar was set for the first file: no notice names the file, \<^verbatim>\<open>b.txt\<close> is not
  indexed and no collection is stored.
\<close>

theorem corrupt_file_aborts_indexing:
  "app corrupt_pdf_world no_input docs_session =
     Halt (Uncaught (OtherException ''corrupt PDF''))
       (docs_session\<lparr>files := Some [''/docs/a.pdf'', ''/docs/b.txt'']\<rparr>,
        [StTitle ''Chat with your documents!'', StWrite ''05 Jan, 2025'',
         StTitle ''Document Settings'', StMarkdown ''---'',
         StSuccess ''**Current Folder:**'', StCode ''/docs'', StMarkdown ''---'',
         StProgress 0 1, StProgress 1 2])"
  by (simp add: app_def seq_def emit_def render_sidebar_def load_folder_def
      current_folder_def files_indexed_def clear_chat_def resolve_source_def
      index_documents_def collection_path_def initialize_vector_store_def
      index_file_def load_content_def loaders_def splitext_ext_def
      is_streamlit_cloud_def corrupt_pdf_world_def demo_world_def no_input_def
      docs_session_def empty_session_def)

text \<open>
  In local mode \<open>get_secret\<close> raises \<^verbatim>\<open>NameError\<close>, whatever the key and the
  default: the name \<^verbatim>\<open>load_dotenv\<close> is not bound in \<^verbatim>\<open>app.py\<close>.
\<close>

lemma get_secret_local:
  "\<not> is_streamlit_cloud (environ w) \<Longrightarrow> get_secret w key dflt = Inl (NameError ''load_dotenv'')"
  by (simp add: get_secret_def app_globals_def)

text \<open>
  C2. The claim is that in local mode secret retrieval loads the \<^verbatim>\<open>.env\<close> file,
  reads the environment variable and returns the default, without raising, when
  the key is absent. \<^verbatim>\<open>app.py\<close> calls \<^verbatim>\<open>load_dotenv()\<close> without importing it, so
  the call raises \<^verbatim>\<open>NameError\<close> before the environment is read: for the key
  \<^verbatim>\<open>OPENAI_API_KEY\<close>, absent from the environment, and the default \<^verbatim>\<open>fallback\<close>,
  the result is the exception and not the default.
\<close>

theorem get_secret_local_raises:
  "get_secret demo_world ''OPENAI_API_KEY'' (Some ''fallback'') = Inl (NameError ''load_dotenv'')"
  by (simp add: get_secret_def app_globals_def is_streamlit_cloud_def demo_world_def)

text \<open>
  When the recorded folder holds no supported file and the flag is absent or
  true, the notice is shown and the flag is true afterwards: the same holds in
  the next execution. Nothing in the script sets the flag to false.
\<close>

lemma empty_folder_notice_again:
  assumes "folder_path s = Some fp" and "scan_folders w fp = []"
    and "show_popup s \<noteq> Some False"
  shows "resolve_source w (s, out) =
           Halt Stop (s\<lparr>show_popup := Some True\<rparr>, out @ [StInfo ''No documents found''])"
  using assms by (cases s; cases "show_popup s") (auto simp: resolve_source_def)

text \<open>
  C3. The claim is that the notice \<^verbatim>\<open>No documents found\<close> is shown at most once
  in a session. The script sets \<open>show_popup\<close> to true at the first occurrence,
  tests it before showing the notice and never sets it to false. In a session
  with the folder \<^verbatim>\<open>/docs\<close> recorded and empty, two executions in a row both show
  the notice.
\<close>

theorem empty_folder_notice_shown_twice:
  "session_pages [(empty_folder_world, no_input), (empty_folder_world, no_input)] docs_session =
     [[StTitle ''Chat with your documents!'', StWrite ''05 Jan, 2025'',
       StTitle ''Document Settings'', StMarkdown ''---'',
       StSuccess ''**Current Folder:**'', StCode ''/docs'', StMarkdown ''---'',
       StInfo ''No documents found''],
      [StTitle ''Chat with your documents!'', StWrite ''05 Jan, 2025'',
       StTitle ''Document Settings'', StMarkdown ''---'',
       StSuccess ''**Current Folder:**'', StCode ''/docs'', StMarkdown ''---'',
       StInfo ''No documents found'']]"
  by (simp add: app_def seq_def emit_def render_sidebar_def load_folder_def
      current_folder_def files_indexed_def clear_chat_def resolve_source_def
      is_streamlit_cloud_def empty_folder_world_def demo_world_def no_input_def
      docs_session_def empty_session_def)

end
